theory Spec2Isabelle
  imports Main "HOL-Library.Word"
begin

section \<open>The resume analyzer front end (frontend/src/App.js)\<close>

text \<open>
  The component \<open>App\<close> keeps four pieces of state (\<open>selectedFile\<close>, \<open>analysisResult\<close>,
  \<open>loading\<close>, \<open>error\<close>), has two event handlers (\<open>handleFileChange\<close>, \<open>handleUpload\<close>) and
  returns a tree of React elements. The model below has one definition per handler and
  per JSX expression of the component. What \<open>App\<close> returns is modelled as a tree of elements;
  how React turns that tree into DOM nodes is not part of the repository and is not modelled.
\<close>

subsection \<open>JavaScript values\<close>

text \<open>
  \<open>response.data\<close> is whatever the server sent: the component does not check its shape, so
  the model keeps every value that \<open>JSON.parse\<close> can produce, together with \<open>undefined\<close> (the
  value of an absent property). An object is the list of its own properties, each name once.
  JSON numbers are doubles; the component only ever tests a number for being zero or for
  being greater than zero, and the model carries an integer.
\<close>

datatype jsval =
    JUndefined
  | JNull
  | JBool bool
  | JNum int
  | JStr string
  | JArr "jsval list"
  | JObj "(string \<times> jsval) list"

datatype js_error = TypeError

text \<open>JavaScript's \<open>ToBoolean\<close>, which decides \<open>!x\<close>, \<open>x && y\<close> and \<open>x ? y : z\<close>.\<close>

fun truthy :: "jsval \<Rightarrow> bool" where
  "truthy JUndefined = False"
| "truthy JNull = False"
| "truthy (JBool b) = b"
| "truthy (JNum n) = (n \<noteq> 0)"
| "truthy (JStr s) = (s \<noteq> [])"
| "truthy (JArr xs) = True"
| "truthy (JObj fs) = True"

text \<open>
  The property read \<open>v.p\<close>, for the property names that \<open>App\<close> reads (\<open>extracted_text\<close>,
  \<open>analysis\<close>, \<open>key_sections\<close>, \<open>education_present\<close>, \<open>experience_present\<close>, \<open>skills_present\<close>,
  \<open>improvement_suggestions\<close>, \<open>suggestion\<close>, \<open>length\<close>). Reading a property of \<open>undefined\<close>
  or \<open>null\<close> throws a TypeError; a primitive has none of these properties except the
  \<open>length\<close> of a string. Of the length of a string only its being positive is observed.
\<close>

fun js_get :: "jsval \<Rightarrow> string \<Rightarrow> js_error + jsval" where
  "js_get JUndefined p = Inl TypeError"
| "js_get JNull p = Inl TypeError"
| "js_get (JBool b) p = Inr JUndefined"
| "js_get (JNum n) p = Inr JUndefined"
| "js_get (JStr s) p = Inr (if p = ''length'' then JNum (int (length s)) else JUndefined)"
| "js_get (JArr xs) p = Inr (if p = ''length'' then JNum (int (length xs)) else JUndefined)"
| "js_get (JObj fs) p = Inr (case map_of fs p of None \<Rightarrow> JUndefined | Some v \<Rightarrow> v)"

text \<open>The values other than \<open>undefined\<close> and \<open>null\<close>: those whose properties can be read.\<close>

fun non_nullish :: "jsval \<Rightarrow> bool" where
  "non_nullish JUndefined = False"
| "non_nullish JNull = False"
| "non_nullish other = True"

text \<open>
  The comparison \<open>v > 0\<close>. On \<open>undefined\<close> (NaN), \<open>null\<close> (0), a boolean (0 or 1) and a number
  the language fixes the answer. A string, an array or an object is first converted to a
  number by the engine (string-to-double parsing, \<open>toString\<close>/\<open>valueOf\<close> lookup, which may
  throw); that conversion is outside the repository and is the parameter \<open>conv\<close>.
\<close>

fun js_gt_zero :: "(jsval \<Rightarrow> js_error + bool) \<Rightarrow> jsval \<Rightarrow> js_error + bool" where
  "js_gt_zero conv JUndefined = Inr False"
| "js_gt_zero conv JNull = Inr False"
| "js_gt_zero conv (JBool b) = Inr b"
| "js_gt_zero conv (JNum n) = Inr (0 < n)"
| "js_gt_zero conv (JStr s) = conv (JStr s)"
| "js_gt_zero conv (JArr xs) = conv (JArr xs)"
| "js_gt_zero conv (JObj fs) = conv (JObj fs)"

subsection \<open>React elements\<close>

datatype handler = HandleFileChange | HandleUpload

datatype attr = PStr string | PBool bool | PNat nat | PHandler handler

text \<open>
  A child of an element is another element, a JavaScript value written in braces (a string
  of text, or the falsy left operand that \<open>x && <div/>\<close> evaluates to), or an array of
  children (the result of \<open>map\<close>).
\<close>

datatype element = Element (tag: string) (attrs: "(string \<times> attr) list") (children: "child list")
  and child = CElem element | CVal jsval | CList "child list"

definition jsx_text :: "string \<Rightarrow> child" where
  "jsx_text s = CVal (JStr s)"

definition class_name :: "element \<Rightarrow> string option" where
  "class_name e = (case map_of (attrs e) ''className'' of Some (PStr c) \<Rightarrow> Some c | _ \<Rightarrow> None)"

text \<open>Whether the value of a JSX expression is the element with the given class name.\<close>

fun shows_block :: "string \<Rightarrow> js_error + child \<Rightarrow> bool" where
  "shows_block c (Inr (CElem e)) = (class_name e = Some c)"
| "shows_block c other = False"

subsection \<open>The result renderer (App.js, lines 58 to 88)\<close>

text \<open>Lines 61 to 66: \<open>{analysisResult.extracted_text && (<div className="extracted-text">...)}\<close>.\<close>

definition extracted_text_block :: "jsval \<Rightarrow> js_error + child" where
  "extracted_text_block analysisResult =
     (case js_get analysisResult ''extracted_text'' of
        Inl e \<Rightarrow> Inl e
      | Inr t \<Rightarrow>
          if truthy t
          then Inr (CElem (Element ''div'' [(''className'', PStr ''extracted-text'')]
                 [CElem (Element ''h3'' [] [jsx_text ''Extracted Text'']),
                  CElem (Element ''pre'' [] [CVal t])]))
          else Inr (CVal t))"

text \<open>\<open>flag ? 'Yes' : 'No'\<close>\<close>

definition yes_no :: "jsval \<Rightarrow> child" where
  "yes_no flag = (if truthy flag then jsx_text ''Yes'' else jsx_text ''No'')"

text \<open>
  Lines 68 to 75. Each of the three lines reads \<open>analysisResult.analysis.key_sections\<close> and
  then a flag of it; the reads have no effect, so the three reads of \<open>key_sections\<close> give the
  same value and the first read that throws is the one of \<open>education_present\<close>.
\<close>

definition key_sections_block :: "jsval \<Rightarrow> js_error + child" where
  "key_sections_block analysisResult =
     (case js_get analysisResult ''analysis'' of
        Inl e \<Rightarrow> Inl e
      | Inr analysis \<Rightarrow>
          if \<not> truthy analysis then Inr (CVal analysis)
          else
            (case js_get analysis ''key_sections'' of
               Inl e \<Rightarrow> Inl e
             | Inr key_sections \<Rightarrow>
                 (case js_get key_sections ''education_present'' of
                    Inl e \<Rightarrow> Inl e
                  | Inr education_present \<Rightarrow>
                 (case js_get key_sections ''experience_present'' of
                    Inl e \<Rightarrow> Inl e
                  | Inr experience_present \<Rightarrow>
                 (case js_get key_sections ''skills_present'' of
                    Inl e \<Rightarrow> Inl e
                  | Inr skills_present \<Rightarrow>
                      Inr (CElem (Element ''div'' [(''className'', PStr ''key-sections-analysis'')]
                        [CElem (Element ''h3'' [] [jsx_text ''Key Sections Analysis'']),
                         CElem (Element ''p'' [] [jsx_text ''Education Present: '', yes_no education_present]),
                         CElem (Element ''p'' [] [jsx_text ''Experience Present: '', yes_no experience_present]),
                         CElem (Element ''p'' [] [jsx_text ''Skills Present: '', yes_no skills_present])])))))))"

text \<open>
  Lines 81 to 83, the callback of \<open>map\<close> applied to the elements from position \<open>index\<close> on:
  \<open>(suggestion, index) => <li key={index}>{suggestion.suggestion}</li>\<close>.
\<close>

fun suggestion_items :: "nat \<Rightarrow> jsval list \<Rightarrow> js_error + child list" where
  "suggestion_items index [] = Inr []"
| "suggestion_items index (suggestion # rest) =
     (case js_get suggestion ''suggestion'' of
        Inl e \<Rightarrow> Inl e
      | Inr t \<Rightarrow>
          (case suggestion_items (Suc index) rest of
             Inl e \<Rightarrow> Inl e
           | Inr items \<Rightarrow> Inr (CElem (Element ''li'' [(''key'', PNat index)] [CVal t]) # items)))"

text \<open>
  The call \<open>improvement_suggestions.map(...)\<close>. Only an array has a \<open>map\<close> method; on a
  string, or on an object built by \<open>JSON.parse\<close> (whose \<open>map\<close> property, if any, is not a
  function), the call throws a TypeError.
\<close>

fun suggestions_map :: "jsval \<Rightarrow> js_error + child" where
  "suggestions_map (JArr xs) =
     (case suggestion_items 0 xs of Inl e \<Rightarrow> Inl e | Inr items \<Rightarrow> Inr (CList items))"
| "suggestions_map other = Inl TypeError"

text \<open>
  Lines 77 to 86:
  \<open>{analysisResult.improvement_suggestions && analysisResult.improvement_suggestions.length > 0 && (...)}\<close>.
\<close>

definition suggestions_block :: "(jsval \<Rightarrow> js_error + bool) \<Rightarrow> jsval \<Rightarrow> js_error + child" where
  "suggestions_block conv analysisResult =
     (case js_get analysisResult ''improvement_suggestions'' of
        Inl e \<Rightarrow> Inl e
      | Inr improvement_suggestions \<Rightarrow>
          if \<not> truthy improvement_suggestions then Inr (CVal improvement_suggestions)
          else
            (case js_get improvement_suggestions ''length'' of
               Inl e \<Rightarrow> Inl e
             | Inr len \<Rightarrow>
                 (case js_gt_zero conv len of
                    Inl e \<Rightarrow> Inl e
                  | Inr positive \<Rightarrow>
                      if \<not> positive then Inr (CVal (JBool False))
                      else
                        (case suggestions_map improvement_suggestions of
                           Inl e \<Rightarrow> Inl e
                         | Inr items \<Rightarrow>
                             Inr (CElem (Element ''div'' [(''className'', PStr ''improvement-suggestions'')]
                               [CElem (Element ''h3'' [] [jsx_text ''Improvement Suggestions'']),
                                CElem (Element ''ul'' [] [items])]))))))"

text \<open>
  Lines 58 to 88: \<open>{analysisResult && (<div className="results-section">...)}\<close>. The three
  blocks are evaluated in the order they are written, and the first that throws ends the
  rendering.
\<close>

definition results_section :: "(jsval \<Rightarrow> js_error + bool) \<Rightarrow> jsval \<Rightarrow> js_error + child" where
  "results_section conv analysisResult =
     (if \<not> truthy analysisResult then Inr (CVal analysisResult)
      else
        (case extracted_text_block analysisResult of
           Inl e \<Rightarrow> Inl e
         | Inr extracted \<Rightarrow>
        (case key_sections_block analysisResult of
           Inl e \<Rightarrow> Inl e
         | Inr key_sections \<Rightarrow>
        (case suggestions_block conv analysisResult of
           Inl e \<Rightarrow> Inl e
         | Inr suggestions \<Rightarrow>
             Inr (CElem (Element ''div'' [(''className'', PStr ''results-section'')]
               [CElem (Element ''h2'' [] [jsx_text ''Analysis Results'']),
                extracted, key_sections, suggestions]))))))"

subsection \<open>Component state (App.js, lines 7 to 10)\<close>

record js_file =
  file_name :: string
  file_bytes :: "8 word list"

text \<open>
  \<open>selectedFile\<close> starts as \<open>null\<close> and is afterwards \<open>event.target.files[0]\<close>: a file, or
  \<open>undefined\<close> when the list of chosen files is empty.
\<close>

datatype file_ref = FNull | FUndefined | FFile js_file

record ui_state =
  selectedFile :: file_ref
  analysisResult :: jsval
  loading :: bool
  error :: "string option"

definition initial_state :: ui_state where
  "initial_state = \<lparr>selectedFile = FNull, analysisResult = JNull, loading = False, error = None\<rparr>"

subsection \<open>The handlers (App.js, lines 12 to 45)\<close>

text \<open>Lines 12 to 14; the argument is \<open>event.target.files\<close>.\<close>

definition handleFileChange :: "js_file list \<Rightarrow> ui_state \<Rightarrow> ui_state" where
  "handleFileChange files s =
     s\<lparr>selectedFile := (case files of [] \<Rightarrow> FUndefined | f # rest \<Rightarrow> FFile f)\<rparr>"

text \<open>
  A request handed to \<open>axios.post\<close>: the URL, the configured headers and the form data, a
  list of named parts.
\<close>

record request =
  req_method :: string
  req_url :: string
  req_headers :: "(string \<times> string) list"
  req_body :: "(string \<times> js_file) list"

text \<open>
  Lines 16 to 34: \<open>handleUpload\<close> up to its \<open>await\<close>. It returns the state after the calls
  of the setters and the requests it has issued.
\<close>

definition handleUpload :: "ui_state \<Rightarrow> ui_state \<times> request list" where
  "handleUpload s =
     (case selectedFile s of
        FNull \<Rightarrow> (s\<lparr>error := Some ''Please select a resume file.''\<rparr>, [])
      | FUndefined \<Rightarrow> (s\<lparr>error := Some ''Please select a resume file.''\<rparr>, [])
      | FFile f \<Rightarrow>
          (s\<lparr>loading := True, error := None, analysisResult := JNull\<rparr>,
           [\<lparr>req_method = ''POST'',
             req_url = ''http://localhost:5000/analyze/'',
             req_headers = [(''Content-Type'', ''multipart/form-data'')],
             req_body = [(''file'', f)]\<rparr>]))"

text \<open>
  What becomes of a request: no answer at all (a network error), or a response with a
  status and a body. \<open>axios\<close>, with its default \<open>validateStatus\<close>, fulfils the promise for a
  status from 200 to 299 and rejects it otherwise, with the response attached to the error
  when there is one.
\<close>

record response =
  status :: nat
  data :: jsval

datatype outcome = NetworkError | Answered response

datatype settled = Fulfilled response | Rejected "response option"

definition validateStatus :: "nat \<Rightarrow> bool" where
  "validateStatus st = (200 \<le> st \<and> st < 300)"

fun axios_post :: "outcome \<Rightarrow> settled" where
  "axios_post NetworkError = Rejected None"
| "axios_post (Answered r) = (if validateStatus (status r) then Fulfilled r else Rejected (Some r))"

text \<open>The arguments of \<open>console.error\<close>: a label, then the error object or a value.\<close>

datatype console_arg = ErrorObject "response option" | Value jsval

type_synonym console_entry = "string \<times> console_arg"

text \<open>
  Lines 35 to 44: \<open>handleUpload\<close> from its \<open>await\<close> on. The setters act on the state the
  component has when the promise settles.
\<close>

fun handleUpload_settled :: "settled \<Rightarrow> ui_state \<Rightarrow> ui_state \<times> console_entry list" where
  "handleUpload_settled (Fulfilled r) s = (s\<lparr>analysisResult := data r, loading := False\<rparr>, [])"
| "handleUpload_settled (Rejected err_response) s =
     (s\<lparr>error := Some ''Failed to upload and analyze the resume. Please try again.'',
        loading := False\<rparr>,
      (''Error uploading resume:'', ErrorObject err_response) #
      (case err_response of
         None \<Rightarrow> []
       | Some r \<Rightarrow> [(''Backend error:'', Value (data r))]))"

subsection \<open>The upload form and the component (App.js, lines 47 to 90)\<close>

text \<open>Lines 52 to 54.\<close>

definition submit_button :: "ui_state \<Rightarrow> element" where
  "submit_button s =
     Element ''button'' [(''onClick'', PHandler HandleUpload), (''disabled'', PBool (loading s))]
       [if loading s then jsx_text ''Analyzing...'' else jsx_text ''Analyze Resume'']"

text \<open>Line 55: \<open>{error && <p className="error-message">{error}</p>}\<close>.\<close>

definition error_message :: "ui_state \<Rightarrow> child" where
  "error_message s =
     (case error s of
        None \<Rightarrow> CVal JNull
      | Some e \<Rightarrow>
          if e = [] then CVal (JStr e)
          else CElem (Element ''p'' [(''className'', PStr ''error-message'')] [CVal (JStr e)]))"

definition upload_section :: "ui_state \<Rightarrow> element" where
  "upload_section s =
     Element ''div'' [(''className'', PStr ''upload-section'')]
       [CElem (Element ''input''
          [(''type'', PStr ''file''), (''accept'', PStr ''.pdf''),
           (''onChange'', PHandler HandleFileChange)] []),
        CElem (submit_button s),
        error_message s]"

definition App :: "(jsval \<Rightarrow> js_error + bool) \<Rightarrow> ui_state \<Rightarrow> js_error + element" where
  "App conv s =
     (case results_section conv (analysisResult s) of
        Inl e \<Rightarrow> Inl e
      | Inr results \<Rightarrow>
          Inr (Element ''div'' [(''className'', PStr ''app-container'')]
            [CElem (Element ''h1'' [] [jsx_text ''Resume Analyzer'']),
             CElem (upload_section s),
             results]))"

subsection \<open>The component in its environment\<close>

text \<open>
  The running component is its state, the requests that have been sent and not yet
  answered, and what has been written to the console. Three things can happen: the user
  chooses files, the user clicks the button, and a request in flight settles. A browser
  does not deliver a click to a button whose \<open>disabled\<close> attribute is set, so a click is
  possible only when the button that \<open>App\<close> rendered is enabled; React renders the new
  state before the next event is delivered. Any request in flight may settle next,
  whatever its position.
\<close>

record system =
  ui :: ui_state
  in_flight :: "request list"
  console :: "console_entry list"

definition initial_system :: system where
  "initial_system = \<lparr>ui = initial_state, in_flight = [], console = []\<rparr>"

datatype event = FileChange "js_file list" | Click | Settle nat outcome

definition is_disabled :: "element \<Rightarrow> bool" where
  "is_disabled e = (map_of (attrs e) ''disabled'' = Some (PBool True))"

fun step :: "system \<Rightarrow> event \<Rightarrow> system option" where
  "step sys (FileChange files) = Some (sys\<lparr>ui := handleFileChange files (ui sys)\<rparr>)"
| "step sys Click =
     (if is_disabled (submit_button (ui sys)) then None
      else
        (case handleUpload (ui sys) of
           (s', requests) \<Rightarrow> Some (sys\<lparr>ui := s', in_flight := in_flight sys @ requests\<rparr>)))"
| "step sys (Settle i result) =
     (if i < length (in_flight sys)
      then
        (case handleUpload_settled (axios_post result) (ui sys) of
           (s', logged) \<Rightarrow>
             Some \<lparr>ui = s',
                   in_flight = take i (in_flight sys) @ drop (Suc i) (in_flight sys),
                   console = console sys @ logged\<rparr>)
      else None)"

fun run :: "system \<Rightarrow> event list \<Rightarrow> system option" where
  "run sys [] = Some sys"
| "run sys (ev # evs) = (case step sys ev of None \<Rightarrow> None | Some sys' \<Rightarrow> run sys' evs)"

text \<open>
  While a request is in flight there is exactly one, \<open>loading\<close> is set and the previous
  result has been cleared; otherwise nothing is in flight.
\<close>

definition one_request :: "system \<Rightarrow> bool" where
  "one_request sys =
     (if loading (ui sys)
      then length (in_flight sys) = 1 \<and> analysisResult (ui sys) = JNull
      else in_flight sys = [])"

subsection \<open>Sample data\<close>

text \<open>A file and the request that \<open>handleUpload\<close> makes for it, used in the examples below.\<close>

definition example_file :: js_file where
  "example_file = \<lparr>file_name = ''resume.pdf'', file_bytes = [0x25, 0x50, 0x44, 0x46]\<rparr>"

definition example_request :: request where
  "example_request =
     \<lparr>req_method = ''POST'',
      req_url = ''http://localhost:5000/analyze/'',
      req_headers = [(''Content-Type'', ''multipart/form-data'')],
      req_body = [(''file'', example_file)]\<rparr>"

section \<open>Properties\<close>

subsection \<open>Reading properties\<close>

lemma js_get_throws: "(js_get v p = Inl e) = (\<not> non_nullish v)"
  by (cases v; cases e) simp_all

lemma js_get_non_nullish: "non_nullish v \<Longrightarrow> \<exists>x. js_get v p = Inr x"
  by (cases v) simp_all

lemma truthy_non_nullish: "truthy v \<Longrightarrow> non_nullish v"
  by (cases v) simp_all

subsection \<open>The list items\<close>

lemma suggestion_items_throws:
  "\<not> list_all non_nullish xs \<Longrightarrow> suggestion_items k xs = Inl TypeError"
proof (induction xs arbitrary: k)
  case Nil
  then show ?case by simp
next
  case (Cons x xs)
  show ?case
  proof (cases "non_nullish x")
    case False
    then have "js_get x ''suggestion'' = Inl TypeError"
      by (simp add: js_get_throws)
    then show ?thesis by simp
  next
    case True
    with Cons.prems have "\<not> list_all non_nullish xs" by simp
    then have "suggestion_items (Suc k) xs = Inl TypeError" by (rule Cons.IH)
    moreover from True obtain t where "js_get x ''suggestion'' = Inr t"
      using js_get_non_nullish by blast
    ultimately show ?thesis by simp
  qed
qed

lemma suggestion_items_returns:
  "list_all non_nullish xs \<Longrightarrow>
   \<exists>items. suggestion_items k xs = Inr items \<and> length items = length xs \<and>
     (\<forall>i<length xs. \<exists>t. js_get (xs ! i) ''suggestion'' = Inr t \<and>
        items ! i = CElem (Element ''li'' [(''key'', PNat (k + i))] [CVal t]))"
proof (induction xs arbitrary: k)
  case Nil
  then show ?case by simp
next
  case (Cons x xs)
  from Cons.prems have x: "non_nullish x" and xs: "list_all non_nullish xs" by simp_all
  from x obtain t where t: "js_get x ''suggestion'' = Inr t"
    using js_get_non_nullish by blast
  from Cons.IH [OF xs, of "Suc k"] obtain items where
    items: "suggestion_items (Suc k) xs = Inr items" "length items = length xs"
      "\<forall>i<length xs. \<exists>t. js_get (xs ! i) ''suggestion'' = Inr t \<and>
         items ! i = CElem (Element ''li'' [(''key'', PNat (Suc k + i))] [CVal t])"
    by blast
  let ?li = "CElem (Element ''li'' [(''key'', PNat k)] [CVal t])"
  have run: "suggestion_items k (x # xs) = Inr (?li # items)"
    using t items(1) by simp
  have each: "\<exists>u. js_get ((x # xs) ! i) ''suggestion'' = Inr u \<and>
      (?li # items) ! i = CElem (Element ''li'' [(''key'', PNat (k + i))] [CVal u])"
    if "i < length (x # xs)" for i
  proof (cases i)
    case 0
    then show ?thesis using t by simp
  next
    case (Suc j)
    with that have "j < length xs" by simp
    with items(3) obtain u where "js_get (xs ! j) ''suggestion'' = Inr u"
      "items ! j = CElem (Element ''li'' [(''key'', PNat (Suc k + j))] [CVal u])"
      by blast
    then show ?thesis using Suc by simp
  qed
  show ?case
    using run items(2) each by auto
qed

subsection \<open>The blocks inside the results section\<close>

text \<open>
  Each of the three block expressions is a child of the results section: when all three
  return, the section holds their values after its heading, in the order written.
\<close>

lemma results_section_returns:
  assumes "truthy r"
    and "extracted_text_block r = Inr extracted"
    and "key_sections_block r = Inr key_sections"
    and "suggestions_block conv r = Inr suggestions"
  shows "results_section conv r =
    Inr (CElem (Element ''div'' [(''className'', PStr ''results-section'')]
      [CElem (Element ''h2'' [] [jsx_text ''Analysis Results'']),
       extracted, key_sections, suggestions]))"
  using assms by (simp add: results_section_def)

lemma results_section_falsy: "\<not> truthy r \<Longrightarrow> results_section conv r = Inr (CVal r)"
  by (simp add: results_section_def)

text \<open>The empty object: the section is rendered with its heading and none of the blocks.\<close>

lemma results_section_empty_object:
  "results_section conv (JObj []) =
    Inr (CElem (Element ''div'' [(''className'', PStr ''results-section'')]
      [CElem (Element ''h2'' [] [jsx_text ''Analysis Results'']),
       CVal JUndefined, CVal JUndefined, CVal JUndefined]))"
  by (simp add: results_section_def extracted_text_block_def key_sections_block_def
      suggestions_block_def)

subsection \<open>One request at a time\<close>

lemma one_request_initial: "one_request initial_system"
  by (simp add: one_request_def initial_system_def initial_state_def)

lemma one_request_step:
  assumes "one_request sys" and "step sys ev = Some sys'"
  shows "one_request sys'"
proof (cases ev)
  case (FileChange files)
  with assms show ?thesis
    by (auto simp: one_request_def handleFileChange_def)
next
  case Click
  with assms show ?thesis
    by (auto simp: one_request_def handleUpload_def is_disabled_def submit_button_def
        split: if_splits file_ref.splits)
next
  case (Settle i result)
  with assms show ?thesis
    by (cases "axios_post result")
       (auto simp: one_request_def split: if_splits)
qed

lemma one_request_run:
  "one_request sys \<Longrightarrow> run sys evs = Some sys' \<Longrightarrow> one_request sys'"
proof (induction evs arbitrary: sys)
  case Nil
  then show ?case by simp
next
  case (Cons ev evs)
  from Cons.prems(2) obtain mid where mid: "step sys ev = Some mid" "run mid evs = Some sys'"
    by (auto split: option.splits)
  from Cons.prems(1) mid(1) have "one_request mid" by (rule one_request_step)
  then show ?case using mid(2) by (rule Cons.IH)
qed

lemma one_request_reachable: "run initial_system evs = Some sys \<Longrightarrow> one_request sys"
  using one_request_initial by (rule one_request_run)

lemma settle_failed:
  assumes "case result of NetworkError \<Rightarrow> True | Answered r \<Rightarrow> \<not> validateStatus (status r)"
  shows "\<exists>r. axios_post result = Rejected r"
  using assms by (cases result) auto


text \<open>
  C4. For the response
  \<open>{"extracted_text":"Hello","analysis":{"key_sections":{"education_present":true,
  "experience_present":false,"skills_present":true}},"improvement_suggestions":[{"suggestion":"Add metrics"}]}\<close>
  the renderer produces the extracted-text block holding \<open>Hello\<close>, the lines
  \<open>Education Present: Yes\<close>, \<open>Experience Present: No\<close> and \<open>Skills Present: Yes\<close>, and a list
  with exactly one item, \<open>Add metrics\<close>.
\<close>

theorem render_example_response:
  "results_section conv
     (JObj [(''extracted_text'', JStr ''Hello''),
            (''analysis'', JObj [(''key_sections'',
               JObj [(''education_present'', JBool True),
                     (''experience_present'', JBool False),
                     (''skills_present'', JBool True)])]),
            (''improvement_suggestions'', JArr [JObj [(''suggestion'', JStr ''Add metrics'')]])])
   = Inr (CElem (Element ''div'' [(''className'', PStr ''results-section'')]
       [CElem (Element ''h2'' [] [jsx_text ''Analysis Results'']),
        CElem (Element ''div'' [(''className'', PStr ''extracted-text'')]
          [CElem (Element ''h3'' [] [jsx_text ''Extracted Text'']),
           CElem (Element ''pre'' [] [jsx_text ''Hello''])]),
        CElem (Element ''div'' [(''className'', PStr ''key-sections-analysis'')]
          [CElem (Element ''h3'' [] [jsx_text ''Key Sections Analysis'']),
           CElem (Element ''p'' [] [jsx_text ''Education Present: '', jsx_text ''Yes'']),
           CElem (Element ''p'' [] [jsx_text ''Experience Present: '', jsx_text ''No'']),
           CElem (Element ''p'' [] [jsx_text ''Skills Present: '', jsx_text ''Yes''])]),
        CElem (Element ''div'' [(''className'', PStr ''improvement-suggestions'')]
          [CElem (Element ''h3'' [] [jsx_text ''Improvement Suggestions'']),
           CElem (Element ''ul'' []
             [CList [CElem (Element ''li'' [(''key'', PNat 0)] [jsx_text ''Add metrics''])]])])]))"
  by (simp add: results_section_def extracted_text_block_def key_sections_block_def
      suggestions_block_def yes_no_def jsx_text_def)

text \<open>
  C1. In every state in which no file is selected (\<open>selectedFile\<close> is \<open>null\<close> or \<open>undefined\<close>),
  \<open>handleUpload\<close> issues no request and sets \<open>error\<close> to exactly
  \<open>Please select a resume file.\<close>, changing nothing else; a click in such a state leaves
  the requests in flight as they were.
\<close>

theorem submit_without_file:
  assumes "selectedFile s = FNull \<or> selectedFile s = FUndefined"
  shows "handleUpload s = (s\<lparr>error := Some ''Please select a resume file.''\<rparr>, []) \<and>
    (\<forall>sys sys'. ui sys = s \<and> step sys Click = Some sys' \<longrightarrow>
       in_flight sys' = in_flight sys \<and> error (ui sys') = Some ''Please select a resume file.'')"
  using assms by (auto simp: handleUpload_def split: if_splits)

theorem submit_without_file_witness:
  "(selectedFile initial_state = FNull \<or> selectedFile initial_state = FUndefined) \<and>
   handleUpload initial_state =
     (\<lparr>selectedFile = FNull, analysisResult = JNull, loading = False,
       error = Some ''Please select a resume file.''\<rparr>, []) \<and>
   step initial_system Click =
     Some \<lparr>ui = \<lparr>selectedFile = FNull, analysisResult = JNull, loading = False,
                  error = Some ''Please select a resume file.''\<rparr>,
           in_flight = [], console = []\<rparr>"
proof -
  have unset: "selectedFile initial_state = FNull \<or> selectedFile initial_state = FUndefined"
    by (simp add: initial_state_def)
  have enabled: "\<not> is_disabled (submit_button initial_state)"
    by (simp add: is_disabled_def submit_button_def initial_state_def)
  from submit_without_file [OF unset] unset enabled show ?thesis
    by (simp add: initial_system_def initial_state_def)
qed

text \<open>
  C2. In every state in which a file is selected, \<open>handleUpload\<close> issues exactly one request:
  a POST to \<open>http://localhost:5000/analyze/\<close> with the header
  \<open>Content-Type: multipart/form-data\<close>, whose form has exactly one part, named \<open>file\<close>,
  holding the selected file and so its bytes.
\<close>

theorem submit_with_file:
  assumes "selectedFile s = FFile f"
  shows "snd (handleUpload s) =
      [\<lparr>req_method = ''POST'',
        req_url = ''http://localhost:5000/analyze/'',
        req_headers = [(''Content-Type'', ''multipart/form-data'')],
        req_body = [(''file'', f)]\<rparr>] \<and>
    (\<exists>req. snd (handleUpload s) = [req] \<and>
       map fst (req_body req) = [''file''] \<and>
       map (file_bytes \<circ> snd) (req_body req) = [file_bytes f])"
  using assms by (simp add: handleUpload_def)

theorem submit_with_file_witness:
  "selectedFile (initial_state\<lparr>selectedFile := FFile example_file\<rparr>) = FFile example_file \<and>
   snd (handleUpload (initial_state\<lparr>selectedFile := FFile example_file\<rparr>)) =
     [\<lparr>req_method = ''POST'',
       req_url = ''http://localhost:5000/analyze/'',
       req_headers = [(''Content-Type'', ''multipart/form-data'')],
       req_body = [(''file'', example_file)]\<rparr>] \<and>
   map (file_bytes \<circ> snd) (req_body example_request) = [[0x25, 0x50, 0x44, 0x46]]"
proof -
  have chosen: "selectedFile (initial_state\<lparr>selectedFile := FFile example_file\<rparr>) = FFile example_file"
    by simp
  from submit_with_file [OF chosen] chosen show ?thesis
    by (simp add: example_request_def example_file_def)
qed

text \<open>
  C3. When the request in flight fails (a network error, or a response whose status is not
  from 200 to 299), the state that results has \<open>loading\<close> false, \<open>error\<close> equal to exactly
  \<open>Failed to upload and analyze the resume. Please try again.\<close> and a null result. Nothing
  else of the state changes, so neither the status nor the body of the response reaches
  what is displayed (the error paragraph shows the fixed message), and no request is in
  flight afterwards: there is no retry.
\<close>

theorem failed_request:
  assumes "run initial_system evs = Some sys"
    and "step sys (Settle i result) = Some sys'"
    and "case result of NetworkError \<Rightarrow> True | Answered r \<Rightarrow> \<not> validateStatus (status r)"
  shows "loading (ui sys') = False \<and>
    error (ui sys') = Some ''Failed to upload and analyze the resume. Please try again.'' \<and>
    analysisResult (ui sys') = JNull \<and>
    in_flight sys' = [] \<and>
    ui sys' = (ui sys)\<lparr>error := Some ''Failed to upload and analyze the resume. Please try again.'',
                        loading := False\<rparr> \<and>
    error_message (ui sys') =
      CElem (Element ''p'' [(''className'', PStr ''error-message'')]
        [jsx_text ''Failed to upload and analyze the resume. Please try again.''])"
proof -
  from assms(1) have inv: "one_request sys" by (rule one_request_reachable)
  from assms(3) obtain r where rej: "axios_post result = Rejected r"
    using settle_failed by blast
  from assms(2) have i: "i < length (in_flight sys)"
    by (simp split: if_splits)
  with inv have busy: "loading (ui sys)" "length (in_flight sys) = 1"
      "analysisResult (ui sys) = JNull"
    by (auto simp: one_request_def split: if_splits)
  from assms(2) i rej have ui': "ui sys' =
      (ui sys)\<lparr>error := Some ''Failed to upload and analyze the resume. Please try again.'',
                loading := False\<rparr>"
    and fl: "in_flight sys' = take i (in_flight sys) @ drop (Suc i) (in_flight sys)"
    by auto
  from fl i busy(2) have "in_flight sys' = []" by simp
  then show ?thesis
    using ui' busy(3) by (simp add: error_message_def jsx_text_def)
qed

theorem failed_request_witness:
  "run initial_system [FileChange [example_file], Click] =
     Some \<lparr>ui = \<lparr>selectedFile = FFile example_file, analysisResult = JNull,
                  loading = True, error = None\<rparr>,
           in_flight = [example_request], console = []\<rparr> \<and>
   step \<lparr>ui = \<lparr>selectedFile = FFile example_file, analysisResult = JNull,
                 loading = True, error = None\<rparr>,
          in_flight = [example_request], console = []\<rparr>
     (Settle 0 (Answered \<lparr>status = 500, data = JObj [(''detail'', JStr ''Internal Server Error'')]\<rparr>)) =
     Some \<lparr>ui = \<lparr>selectedFile = FFile example_file, analysisResult = JNull, loading = False,
                  error = Some ''Failed to upload and analyze the resume. Please try again.''\<rparr>,
           in_flight = [],
           console = [(''Error uploading resume:'',
                       ErrorObject (Some \<lparr>status = 500,
                         data = JObj [(''detail'', JStr ''Internal Server Error'')]\<rparr>)),
                      (''Backend error:'', Value (JObj [(''detail'', JStr ''Internal Server Error'')]))]\<rparr> \<and>
   \<not> validateStatus 500 \<and>
   error_message \<lparr>selectedFile = FFile example_file, analysisResult = JNull, loading = False,
                  error = Some ''Failed to upload and analyze the resume. Please try again.''\<rparr> =
     CElem (Element ''p'' [(''className'', PStr ''error-message'')]
       [jsx_text ''Failed to upload and analyze the resume. Please try again.''])"
proof -
  let ?busy = "\<lparr>ui = \<lparr>selectedFile = FFile example_file, analysisResult = JNull,
                        loading = True, error = None\<rparr>,
                 in_flight = [example_request], console = []\<rparr>"
  let ?answer = "Answered \<lparr>status = 500, data = JObj [(''detail'', JStr ''Internal Server Error'')]\<rparr>"
  let ?after = "\<lparr>ui = \<lparr>selectedFile = FFile example_file, analysisResult = JNull, loading = False,
                  error = Some ''Failed to upload and analyze the resume. Please try again.''\<rparr>,
           in_flight = [],
           console = [(''Error uploading resume:'',
                       ErrorObject (Some \<lparr>status = 500,
                         data = JObj [(''detail'', JStr ''Internal Server Error'')]\<rparr>)),
                      (''Backend error:'', Value (JObj [(''detail'', JStr ''Internal Server Error'')]))]\<rparr>"
  have reach: "run initial_system [FileChange [example_file], Click] = Some ?busy"
    by (simp add: initial_system_def initial_state_def handleFileChange_def handleUpload_def
        is_disabled_def submit_button_def example_request_def)
  have settle: "step ?busy (Settle 0 ?answer) = Some ?after"
    by (simp add: validateStatus_def)
  have fails: "case ?answer of NetworkError \<Rightarrow> True | Answered r \<Rightarrow> \<not> validateStatus (status r)"
    by (simp add: validateStatus_def)
  from failed_request [OF reach settle fails] reach settle show ?thesis
    by (simp add: validateStatus_def)
qed

text \<open>
  C5, as amended. A submit attempt made with a file selected clears the previous error and
  the previous result (and sets \<open>loading\<close>) before the request is sent. A submit attempt
  made with no file selected returns before that: it sets \<open>error\<close> to
  \<open>Please select a resume file.\<close> and leaves the previous result and \<open>loading\<close> as they were.
\<close>

theorem submit_resets_when_file_selected:
  "(selectedFile s = FFile f \<longrightarrow>
      error (fst (handleUpload s)) = None \<and>
      analysisResult (fst (handleUpload s)) = JNull \<and>
      fst (handleUpload s) = s\<lparr>loading := True, error := None, analysisResult := JNull\<rparr>) \<and>
   (selectedFile s = FNull \<or> selectedFile s = FUndefined \<longrightarrow>
      error (fst (handleUpload s)) = Some ''Please select a resume file.'' \<and>
      analysisResult (fst (handleUpload s)) = analysisResult s \<and>
      loading (fst (handleUpload s)) = loading s)"
  by (auto simp: handleUpload_def)

theorem submit_resets_when_file_selected_witness:
  "selectedFile \<lparr>selectedFile = FFile example_file, analysisResult = JStr ''old result'',
                 loading = False, error = Some ''old error''\<rparr> = FFile example_file \<and>
   fst (handleUpload \<lparr>selectedFile = FFile example_file, analysisResult = JStr ''old result'',
                      loading = False, error = Some ''old error''\<rparr>) =
     \<lparr>selectedFile = FFile example_file, analysisResult = JNull, loading = True, error = None\<rparr> \<and>
   selectedFile \<lparr>selectedFile = FUndefined, analysisResult = JStr ''old result'',
                 loading = False, error = None\<rparr> = FUndefined \<and>
   fst (handleUpload \<lparr>selectedFile = FUndefined, analysisResult = JStr ''old result'',
                      loading = False, error = None\<rparr>) =
     \<lparr>selectedFile = FUndefined, analysisResult = JStr ''old result'', loading = False,
      error = Some ''Please select a resume file.''\<rparr>"
proof -
  let ?chosen = "\<lparr>selectedFile = FFile example_file, analysisResult = JStr ''old result'',
                  loading = False, error = Some ''old error''\<rparr>"
  let ?unset = "\<lparr>selectedFile = FUndefined, analysisResult = JStr ''old result'',
                 loading = False, error = None\<rparr>"
  have a: "selectedFile ?chosen = FFile example_file" by simp
  have b: "selectedFile ?unset = FNull \<or> selectedFile ?unset = FUndefined" by simp
  from submit_resets_when_file_selected [of ?chosen example_file] a
  have "fst (handleUpload ?chosen) =
      \<lparr>selectedFile = FFile example_file, analysisResult = JNull, loading = True, error = None\<rparr>"
    by simp
  moreover from submit_resets_when_file_selected [of ?unset example_file] b
  have "fst (handleUpload ?unset) =
      \<lparr>selectedFile = FUndefined, analysisResult = JStr ''old result'', loading = False,
       error = Some ''Please select a resume file.''\<rparr>"
    by (simp add: handleUpload_def)
  ultimately show ?thesis by simp
qed

text \<open>
  C5 as it was stated fails. After a successful analysis the user empties the file
  selection and clicks again: this submit attempt keeps the previous result on display and
  does not leave \<open>error\<close> cleared.
\<close>

theorem empty_selection_keeps_result:
  "run initial_system
     [FileChange [example_file], Click,
      Settle 0 (Answered \<lparr>status = 200, data = JObj [(''extracted_text'', JStr ''Hello'')]\<rparr>),
      FileChange []] =
     Some \<lparr>ui = \<lparr>selectedFile = FUndefined,
                  analysisResult = JObj [(''extracted_text'', JStr ''Hello'')],
                  loading = False, error = None\<rparr>,
           in_flight = [], console = []\<rparr> \<and>
   handleUpload \<lparr>selectedFile = FUndefined,
                 analysisResult = JObj [(''extracted_text'', JStr ''Hello'')],
                 loading = False, error = None\<rparr> =
     (\<lparr>selectedFile = FUndefined,
       analysisResult = JObj [(''extracted_text'', JStr ''Hello'')],
       loading = False, error = Some ''Please select a resume file.''\<rparr>, []) \<and>
   \<not> (error (fst (handleUpload \<lparr>selectedFile = FUndefined,
                 analysisResult = JObj [(''extracted_text'', JStr ''Hello'')],
                 loading = False, error = None\<rparr>)) = None \<and>
      analysisResult (fst (handleUpload \<lparr>selectedFile = FUndefined,
                 analysisResult = JObj [(''extracted_text'', JStr ''Hello'')],
                 loading = False, error = None\<rparr>)) = JNull)"
  by (simp add: initial_system_def initial_state_def handleFileChange_def handleUpload_def
      is_disabled_def submit_button_def validateStatus_def)

text \<open>
  C7. For every result whose \<open>extracted_text\<close> can be read, the extracted-text block is
  rendered if and only if the value read is truthy; when it is, the block shows that value
  in its \<open>pre\<close> element, and when it is not, the expression evaluates to the falsy value
  itself. In particular the empty string gives no block and every non-empty string gives
  the block. The block is the expression at lines 61 to 66, the child after the heading of
  the results section (\<open>results_section_returns\<close>).
\<close>

theorem extracted_text_by_truthiness:
  assumes "js_get r ''extracted_text'' = Inr t"
  shows "(shows_block ''extracted-text'' (extracted_text_block r) \<longleftrightarrow> truthy t) \<and>
    (truthy t \<longrightarrow> extracted_text_block r =
       Inr (CElem (Element ''div'' [(''className'', PStr ''extracted-text'')]
         [CElem (Element ''h3'' [] [jsx_text ''Extracted Text'']),
          CElem (Element ''pre'' [] [CVal t])]))) \<and>
    (\<not> truthy t \<longrightarrow> extracted_text_block r = Inr (CVal t)) \<and>
    (t = JStr [] \<longrightarrow> \<not> shows_block ''extracted-text'' (extracted_text_block r)) \<and>
    (\<forall>str. t = JStr str \<and> str \<noteq> [] \<longrightarrow>
       shows_block ''extracted-text'' (extracted_text_block r))"
  using assms by (auto simp: extracted_text_block_def class_name_def)

theorem extracted_text_by_truthiness_witness:
  "js_get (JObj [(''extracted_text'', JStr ''Hello'')]) ''extracted_text'' = Inr (JStr ''Hello'') \<and>
   shows_block ''extracted-text'' (extracted_text_block (JObj [(''extracted_text'', JStr ''Hello'')])) \<and>
   js_get (JObj [(''extracted_text'', JStr [])]) ''extracted_text'' = Inr (JStr []) \<and>
   \<not> shows_block ''extracted-text'' (extracted_text_block (JObj [(''extracted_text'', JStr [])])) \<and>
   extracted_text_block (JObj [(''extracted_text'', JStr [])]) = Inr (CVal (JStr []))"
proof -
  have a: "js_get (JObj [(''extracted_text'', JStr ''Hello'')]) ''extracted_text'' = Inr (JStr ''Hello'')"
    by simp
  have b: "js_get (JObj [(''extracted_text'', JStr [])]) ''extracted_text'' = Inr (JStr [])"
    by simp
  from extracted_text_by_truthiness [OF a]
  have "shows_block ''extracted-text''
      (extracted_text_block (JObj [(''extracted_text'', JStr ''Hello'')])) \<longleftrightarrow>
      truthy (JStr ''Hello'')"
    by blast
  then have shown: "shows_block ''extracted-text''
      (extracted_text_block (JObj [(''extracted_text'', JStr ''Hello'')]))"
    by simp
  from extracted_text_by_truthiness [OF b]
  have hidden: "\<not> shows_block ''extracted-text''
      (extracted_text_block (JObj [(''extracted_text'', JStr [])]))"
    and falsy: "extracted_text_block (JObj [(''extracted_text'', JStr [])]) = Inr (CVal (JStr []))"
    by simp_all
  from a b shown hidden falsy show ?thesis by blast
qed

text \<open>
  C10. \<open>handleFileChange\<close> changes only \<open>selectedFile\<close>: \<open>loading\<close>, \<open>error\<close> and the result are
  as before, so the error paragraph of an earlier failed or empty submit is rendered
  unchanged after a new file has been chosen.
\<close>

theorem file_change_frame:
  "(handleFileChange files s)\<lparr>selectedFile := selectedFile s\<rparr> = s \<and>
   loading (handleFileChange files s) = loading s \<and>
   error (handleFileChange files s) = error s \<and>
   analysisResult (handleFileChange files s) = analysisResult s \<and>
   error_message (handleFileChange files s) = error_message s \<and>
   selectedFile (handleFileChange files s) =
     (case files of [] \<Rightarrow> FUndefined | f # rest \<Rightarrow> FFile f)"
  by (simp add: handleFileChange_def error_message_def)

text \<open>
  C6. For every result whose \<open>improvement_suggestions\<close> can be read and, when it is a
  sequence, has no \<open>null\<close> element (every element is an object or another value with
  readable properties), the suggestions block is rendered if and only if the sequence is
  present and non-empty. When it is rendered, its list holds one item per element of the
  sequence, in the order of the sequence: item \<open>i\<close> has key \<open>i\<close> and shows the \<open>suggestion\<close>
  property of element \<open>i\<close>. The block is the expression at lines 77 to 86, the last child
  of the results section (\<open>results_section_returns\<close>).
\<close>

theorem suggestions_block_rendered:
  assumes "js_get r ''improvement_suggestions'' = Inr v"
    and "case v of JArr xs \<Rightarrow> list_all non_nullish xs | _ \<Rightarrow> True"
  shows "(shows_block ''improvement-suggestions'' (suggestions_block conv r) \<longleftrightarrow>
       (\<exists>xs. v = JArr xs \<and> xs \<noteq> [])) \<and>
    (\<forall>xs. v = JArr xs \<and> xs \<noteq> [] \<longrightarrow>
       (\<exists>items.
          suggestions_block conv r =
            Inr (CElem (Element ''div'' [(''className'', PStr ''improvement-suggestions'')]
              [CElem (Element ''h3'' [] [jsx_text ''Improvement Suggestions'']),
               CElem (Element ''ul'' [] [CList items])])) \<and>
          length items = length xs \<and>
          (\<forall>i<length xs. \<exists>t. js_get (xs ! i) ''suggestion'' = Inr t \<and>
             items ! i = CElem (Element ''li'' [(''key'', PNat i)] [CVal t]))))"
proof (cases v)
  case (JArr xs)
  with assms(2) have "list_all non_nullish xs" by simp
  from suggestion_items_returns [OF this, of 0] obtain items where
    items: "suggestion_items 0 xs = Inr items" "length items = length xs"
      "\<forall>i<length xs. \<exists>t. js_get (xs ! i) ''suggestion'' = Inr t \<and>
         items ! i = CElem (Element ''li'' [(''key'', PNat i)] [CVal t])"
    by auto
  show ?thesis
  proof (cases "xs = []")
    case True
    with JArr assms(1) have "suggestions_block conv r = Inr (CVal (JBool False))"
      by (simp add: suggestions_block_def)
    with True JArr show ?thesis by simp
  next
    case False
    with JArr assms(1) items(1) have block: "suggestions_block conv r =
        Inr (CElem (Element ''div'' [(''className'', PStr ''improvement-suggestions'')]
          [CElem (Element ''h3'' [] [jsx_text ''Improvement Suggestions'']),
           CElem (Element ''ul'' [] [CList items])]))"
      by (simp add: suggestions_block_def)
    then have "shows_block ''improvement-suggestions'' (suggestions_block conv r)"
      by (simp add: class_name_def)
    with False JArr block items(2,3) show ?thesis by auto
  qed
qed (use assms(1) in \<open>auto simp: suggestions_block_def split: sum.splits\<close>)

theorem suggestions_block_rendered_witness:
  "js_get (JObj [(''improvement_suggestions'',
       JArr [JObj [(''suggestion'', JStr ''Add metrics'')],
             JObj [(''suggestion'', JStr ''Shorten the summary'')]])])
     ''improvement_suggestions'' =
     Inr (JArr [JObj [(''suggestion'', JStr ''Add metrics'')],
                JObj [(''suggestion'', JStr ''Shorten the summary'')]]) \<and>
   list_all non_nullish [JObj [(''suggestion'', JStr ''Add metrics'')],
                         JObj [(''suggestion'', JStr ''Shorten the summary'')]] \<and>
   shows_block ''improvement-suggestions''
     (suggestions_block (\<lambda>v. Inl TypeError)
        (JObj [(''improvement_suggestions'',
           JArr [JObj [(''suggestion'', JStr ''Add metrics'')],
                 JObj [(''suggestion'', JStr ''Shorten the summary'')]])])) \<and>
   js_get (JObj [(''improvement_suggestions'', JArr [])]) ''improvement_suggestions'' = Inr (JArr []) \<and>
   \<not> shows_block ''improvement-suggestions''
     (suggestions_block (\<lambda>v. Inl TypeError) (JObj [(''improvement_suggestions'', JArr [])]))"
proof -
  let ?two = "JArr [JObj [(''suggestion'', JStr ''Add metrics'')],
                    JObj [(''suggestion'', JStr ''Shorten the summary'')]]"
  have a: "js_get (JObj [(''improvement_suggestions'', ?two)]) ''improvement_suggestions'' = Inr ?two"
    by simp
  have a': "case ?two of JArr xs \<Rightarrow> list_all non_nullish xs | _ \<Rightarrow> True"
    by simp
  have b: "js_get (JObj [(''improvement_suggestions'', JArr [])]) ''improvement_suggestions'' =
      Inr (JArr [])"
    by simp
  have b': "case JArr [] of JArr xs \<Rightarrow> list_all non_nullish xs | _ \<Rightarrow> True"
    by simp
  from suggestions_block_rendered [OF a a', of "\<lambda>v. Inl TypeError"]
  have shown: "shows_block ''improvement-suggestions''
      (suggestions_block (\<lambda>v. Inl TypeError) (JObj [(''improvement_suggestions'', ?two)]))"
    by blast
  from suggestions_block_rendered [OF b b', of "\<lambda>v. Inl TypeError"]
  have hidden: "\<not> shows_block ''improvement-suggestions''
      (suggestions_block (\<lambda>v. Inl TypeError) (JObj [(''improvement_suggestions'', JArr [])]))"
    by blast
  from a a' b shown hidden show ?thesis by simp
qed

text \<open>
  C8. In every reachable state the submit button is disabled exactly when \<open>loading\<close> is
  true, and then a click is not delivered; \<open>loading\<close> is true exactly while a request is in
  flight, and at most one request is in flight. Whenever a request settles, with whatever
  outcome, \<open>loading\<close> is false afterwards, the button is enabled again and nothing is in
  flight.
\<close>

theorem submit_disabled_while_loading:
  assumes "run initial_system evs = Some sys"
  shows "(is_disabled (submit_button (ui sys)) \<longleftrightarrow> loading (ui sys)) \<and>
    (step sys Click = None \<longleftrightarrow> loading (ui sys)) \<and>
    (loading (ui sys) \<longleftrightarrow> in_flight sys \<noteq> []) \<and>
    length (in_flight sys) \<le> 1 \<and>
    (\<forall>i result sys'. step sys (Settle i result) = Some sys' \<longrightarrow>
       \<not> loading (ui sys') \<and> \<not> is_disabled (submit_button (ui sys')) \<and> in_flight sys' = [])"
proof -
  from assms have inv: "one_request sys" by (rule one_request_reachable)
  have button: "is_disabled (submit_button (ui s)) \<longleftrightarrow> loading (ui s)" for s :: system
    by (simp add: is_disabled_def submit_button_def)
  have click: "step sys Click = None \<longleftrightarrow> loading (ui sys)"
    by (simp add: button split: prod.splits)
  from inv have flight: "loading (ui sys) \<longleftrightarrow> in_flight sys \<noteq> []" "length (in_flight sys) \<le> 1"
    by (auto simp: one_request_def split: if_splits)
  have settle: "\<not> loading (ui sys') \<and> \<not> is_disabled (submit_button (ui sys')) \<and> in_flight sys' = []"
    if "step sys (Settle i result) = Some sys'" for i result sys'
  proof -
    from inv that have "one_request sys'" by (rule one_request_step)
    moreover from that have "\<not> loading (ui sys')"
      by (cases "axios_post result") (auto split: if_splits)
    ultimately show ?thesis by (simp add: button one_request_def)
  qed
  from button [of sys] click flight settle show ?thesis by blast
qed

theorem submit_disabled_while_loading_witness:
  "run initial_system [FileChange [example_file], Click] =
     Some \<lparr>ui = \<lparr>selectedFile = FFile example_file, analysisResult = JNull,
                  loading = True, error = None\<rparr>,
           in_flight = [example_request], console = []\<rparr> \<and>
   is_disabled (submit_button \<lparr>selectedFile = FFile example_file, analysisResult = JNull,
                  loading = True, error = None\<rparr>) \<and>
   step \<lparr>ui = \<lparr>selectedFile = FFile example_file, analysisResult = JNull,
                 loading = True, error = None\<rparr>,
          in_flight = [example_request], console = []\<rparr> Click = None \<and>
   step \<lparr>ui = \<lparr>selectedFile = FFile example_file, analysisResult = JNull,
                 loading = True, error = None\<rparr>,
          in_flight = [example_request], console = []\<rparr>
     (Settle 0 (Answered \<lparr>status = 200, data = JObj []\<rparr>)) =
     Some \<lparr>ui = \<lparr>selectedFile = FFile example_file, analysisResult = JObj [],
                  loading = False, error = None\<rparr>,
           in_flight = [], console = []\<rparr> \<and>
   \<not> is_disabled (submit_button \<lparr>selectedFile = FFile example_file, analysisResult = JObj [],
                  loading = False, error = None\<rparr>)"
proof -
  let ?busy = "\<lparr>ui = \<lparr>selectedFile = FFile example_file, analysisResult = JNull,
                        loading = True, error = None\<rparr>,
                 in_flight = [example_request], console = []\<rparr>"
  let ?done = "\<lparr>ui = \<lparr>selectedFile = FFile example_file, analysisResult = JObj [],
                  loading = False, error = None\<rparr>,
           in_flight = [], console = []\<rparr>"
  have reach: "run initial_system [FileChange [example_file], Click] = Some ?busy"
    by (simp add: initial_system_def initial_state_def handleFileChange_def handleUpload_def
        is_disabled_def submit_button_def example_request_def)
  have settle: "step ?busy (Settle 0 (Answered \<lparr>status = 200, data = JObj []\<rparr>)) = Some ?done"
    by (simp add: validateStatus_def)
  from submit_disabled_while_loading [OF reach]
  have "is_disabled (submit_button (ui ?busy))" and "step ?busy Click = None"
    and "\<not> is_disabled (submit_button (ui ?done))"
    using settle by (simp, simp, blast)
  with reach settle show ?thesis by simp
qed

text \<open>
  C9. The key-sections block reads the three flags of \<open>analysis.key_sections\<close> without
  checking that \<open>key_sections\<close> is there. Its evaluation throws exactly when \<open>analysis\<close> is
  truthy and \<open>analysis.key_sections\<close> is \<open>undefined\<close> or \<open>null\<close>; otherwise it returns. When it
  throws, the whole results section and the component fail to render. A response with
  \<open>analysis\<close> an object that has no \<open>key_sections\<close> is such a case.
\<close>

theorem key_sections_unchecked:
  assumes "js_get r ''analysis'' = Inr a"
  shows "(key_sections_block r = Inl TypeError \<longleftrightarrow>
       truthy a \<and> (js_get a ''key_sections'' = Inr JUndefined \<or> js_get a ''key_sections'' = Inr JNull)) \<and>
    (truthy r \<and> truthy a \<and>
       (js_get a ''key_sections'' = Inr JUndefined \<or> js_get a ''key_sections'' = Inr JNull) \<longrightarrow>
       results_section conv r = Inl TypeError \<and>
       App conv (s\<lparr>analysisResult := r\<rparr>) = Inl TypeError) \<and>
    (\<forall>fs. a = JObj fs \<and> map_of fs ''key_sections'' = None \<longrightarrow>
       key_sections_block r = Inl TypeError)"
proof -
  have block: "key_sections_block r = Inl TypeError \<longleftrightarrow>
      truthy a \<and> (js_get a ''key_sections'' = Inr JUndefined \<or> js_get a ''key_sections'' = Inr JNull)"
  proof (cases "truthy a")
    case False
    with assms show ?thesis by (simp add: key_sections_block_def)
  next
    case True
    then obtain k where k: "js_get a ''key_sections'' = Inr k"
      using truthy_non_nullish js_get_non_nullish by blast
    show ?thesis
    proof (cases "non_nullish k")
      case False
      then have "k = JUndefined \<or> k = JNull" by (cases k) simp_all
      with assms True k show ?thesis by (auto simp: key_sections_block_def)
    next
      case nn: True
      then obtain e x sk where "js_get k ''education_present'' = Inr e"
        "js_get k ''experience_present'' = Inr x" "js_get k ''skills_present'' = Inr sk"
        using js_get_non_nullish by meson
      with assms True k nn show ?thesis by (auto simp: key_sections_block_def)
    qed
  qed
  have page: "results_section conv r = Inl TypeError \<and>
      App conv (s\<lparr>analysisResult := r\<rparr>) = Inl TypeError"
    if "truthy r" "key_sections_block r = Inl TypeError"
  proof -
    from that(1) obtain t where "js_get r ''extracted_text'' = Inr t"
      using truthy_non_nullish js_get_non_nullish by blast
    then obtain c where "extracted_text_block r = Inr c"
      by (cases "truthy t") (simp_all add: extracted_text_block_def)
    with that have "results_section conv r = Inl TypeError"
      by (simp add: results_section_def)
    then show ?thesis by (simp add: App_def)
  qed
  have absent: "key_sections_block r = Inl TypeError"
    if "a = JObj fs" "map_of fs ''key_sections'' = None" for fs
    using that block by simp
  from block page absent show ?thesis by blast
qed

theorem key_sections_unchecked_witness:
  "js_get (JObj [(''analysis'', JObj [])]) ''analysis'' = Inr (JObj []) \<and>
   key_sections_block (JObj [(''analysis'', JObj [])]) = Inl TypeError \<and>
   results_section (\<lambda>v. Inr False) (JObj [(''analysis'', JObj [])]) = Inl TypeError \<and>
   App (\<lambda>v. Inr False) (initial_state\<lparr>analysisResult := JObj [(''analysis'', JObj [])]\<rparr>) =
     Inl TypeError"
proof -
  have a: "js_get (JObj [(''analysis'', JObj [])]) ''analysis'' = Inr (JObj [])"
    by simp
  from key_sections_unchecked [OF a, of "\<lambda>v. Inr False" initial_state] a
  show ?thesis by simp
qed

end
